theory Spec2Isabelle
  imports Complex_Main
begin

section \<open>JavaScript numbers\<close>

text \<open>
  The screens compute with JavaScript numbers. A finite number is modelled by the rational
  it denotes (the store's columns are \<^verbatim>\<open>numeric\<close>); the three non-finite values are kept,
  because the handlers can produce them: \<^verbatim>\<open>Number(undefined)\<close> is NaN and a division by
  zero is an infinity or NaN. Binary rounding of IEEE doubles and signed zero are not part of
  this model: \<open>+\<close>, \<open>-\<close>, \<open>*\<close> and \<open>/\<close> on finite numbers are exact.
\<close>

datatype jsnum = NaN | PosInf | NegInf | Num rat

fun js_add :: "jsnum \<Rightarrow> jsnum \<Rightarrow> jsnum" where
  "js_add (Num a) (Num b) = Num (a + b)"
| "js_add NaN y = NaN"
| "js_add x NaN = NaN"
| "js_add PosInf NegInf = NaN"
| "js_add NegInf PosInf = NaN"
| "js_add PosInf y = PosInf"
| "js_add NegInf y = NegInf"
| "js_add (Num a) y = y"

fun js_neg :: "jsnum \<Rightarrow> jsnum" where
  "js_neg NaN = NaN"
| "js_neg PosInf = NegInf"
| "js_neg NegInf = PosInf"
| "js_neg (Num a) = Num (- a)"

definition js_sub :: "jsnum \<Rightarrow> jsnum \<Rightarrow> jsnum" where
  "js_sub x y = js_add x (js_neg y)"





text \<open>
  A value read from a row that may be missing: \<open>None\<close> is \<^verbatim>\<open>undefined\<close> (no row, as in
  \<^verbatim>\<open>data?.balance\<close> with \<^verbatim>\<open>data\<close> null), \<open>Some None\<close> is SQL NULL (JSON \<^verbatim>\<open>null\<close>), and
  \<open>Some (Some b)\<close> is the number \<open>b\<close>. \<^verbatim>\<open>Number(undefined)\<close> is NaN, \<^verbatim>\<open>Number(null)\<close> is 0.
\<close>

fun Number :: "rat option option \<Rightarrow> jsnum" where
  "Number None = NaN"
| "Number (Some None) = Num 0"
| "Number (Some (Some b)) = Num b"

text \<open>
  What a number becomes in a JSON request body and then in a \<^verbatim>\<open>numeric\<close> column:
  \<^verbatim>\<open>JSON.stringify\<close> writes NaN and the infinities as \<^verbatim>\<open>null\<close>.
\<close>

fun to_numeric :: "jsnum \<Rightarrow> rat option" where
  "to_numeric (Num b) = Some b"
| "to_numeric NaN = None"
| "to_numeric PosInf = None"
| "to_numeric NegInf = None"

subsection \<open>parseFloat\<close>

text \<open>
  \<^verbatim>\<open>parseFloat\<close> skips leading white space and reads the longest prefix that is a decimal
  literal: an optional sign, then \<^verbatim>\<open>Infinity\<close> or digits with an optional fraction and an
  optional exponent. Whatever follows the literal is ignored; with no literal the result is
  NaN. Only ASCII white space is recognised here.
\<close>

definition isWhiteSpace :: "char \<Rightarrow> bool" where
  "isWhiteSpace c = (c \<in> set [CHR '' '', CHR 0x09, CHR 0x0A, CHR 0x0B, CHR 0x0C, CHR 0x0D])"

definition isDigit :: "char \<Rightarrow> bool" where
  "isDigit c = (c \<in> set ''0123456789'')"

definition digitsValue :: "string \<Rightarrow> nat" where
  "digitsValue ds = foldl (\<lambda>n c. 10 * n + (of_char c - 48)) 0 ds"

definition startsWith :: "string \<Rightarrow> string \<Rightarrow> bool" where
  "startsWith s p = (take (length p) s = p)"

text \<open>The exponent part \<^verbatim>\<open>e\<close>, optional sign, digits; 0 when the text has none.\<close>

definition exponentPart :: "string \<Rightarrow> int" where
  "exponentPart r =
     (case r of
        [] \<Rightarrow> 0
      | c # r' \<Rightarrow>
          if c = CHR ''e'' \<or> c = CHR ''E'' then
            (case r' of
               [] \<Rightarrow> 0
             | d # ds \<Rightarrow>
                 if d = CHR ''-'' then
                   (if takeWhile isDigit ds = [] then 0 else - int (digitsValue (takeWhile isDigit ds)))
                 else if d = CHR ''+'' then
                   (if takeWhile isDigit ds = [] then 0 else int (digitsValue (takeWhile isDigit ds)))
                 else
                   (if takeWhile isDigit r' = [] then 0 else int (digitsValue (takeWhile isDigit r'))))
          else 0)"

definition scale10 :: "rat \<Rightarrow> int \<Rightarrow> rat" where
  "scale10 m e = (if 0 \<le> e then m * 10 ^ nat e else m / 10 ^ nat (- e))"

definition unsignedLiteral :: "string \<Rightarrow> jsnum" where
  "unsignedLiteral u =
     (if startsWith u ''Infinity'' then PosInf
      else
        let ip = takeWhile isDigit u;
            r1 = dropWhile isDigit u;
            hasDot = (r1 \<noteq> [] \<and> hd r1 = CHR ''.'');
            fp = (if hasDot then takeWhile isDigit (tl r1) else []);
            r2 = (if hasDot then dropWhile isDigit (tl r1) else r1)
        in if ip = [] \<and> fp = [] then NaN
           else Num (scale10 (of_nat (digitsValue ip) + of_nat (digitsValue fp) / 10 ^ length fp)
                             (exponentPart r2)))"

definition parseFloat :: "string \<Rightarrow> jsnum" where
  "parseFloat s =
     (let t = dropWhile isWhiteSpace s in
      case t of
        [] \<Rightarrow> NaN
      | c # r \<Rightarrow>
          if c = CHR ''-'' then js_neg (unsignedLiteral r)
          else if c = CHR ''+'' then unsignedLiteral r
          else unsignedLiteral t)"

section \<open>The remote store\<close>

text \<open>
  Every handler talks to the hosted tables through request/response calls. The store below
  is the signed-in user's slice of the tables \<^verbatim>\<open>accounts\<close> and \<^verbatim>\<open>transactions\<close> (row-level
  security hides every other row), with the columns the handlers read or write. Each call may
  fail; whether it does is an input of the handler's model, one flag per \<^verbatim>\<open>await\<close>.
\<close>

type_synonym id = string

datatype txn_type = Income | Expense

record account_row =
  balance :: "rat option"

record txn_row =
  account_id :: id
  category_id :: "id option"
  amount :: rat
  type :: txn_type
  description :: string
  date :: string
  txn_notes :: string

record store =
  accounts :: "id \<rightharpoonup> account_row"
  transactions :: "(id \<times> txn_row) list"

datatype remote_call =
    InsertTransaction | SelectBalance | UpdateBalance | SelectAccountId | DeleteTransaction

text \<open>
  \<^verbatim>\<open>from('accounts').select('balance').eq('id', k).single()\<close>: the row, or null when the call
  fails, when \<open>k\<close> is \<^verbatim>\<open>undefined\<close> or when no row has that id.
\<close>

definition select_balance :: "bool \<Rightarrow> id option \<Rightarrow> store \<Rightarrow> account_row option" where
  "select_balance ok k s =
     (case k of None \<Rightarrow> None | Some a \<Rightarrow> if ok then accounts s a else None)"

text \<open>\<^verbatim>\<open>from('transactions').select('account_id').eq('id', k).single()\<close>, then \<^verbatim>\<open>.data?.account_id\<close>.\<close>

definition select_account_id :: "bool \<Rightarrow> id \<Rightarrow> store \<Rightarrow> id option" where
  "select_account_id ok k s =
     (if ok then map_option account_id (map_of (transactions s) k) else None)"

text \<open>
  \<^verbatim>\<open>from('accounts').update({ balance: newBalance }).eq('id', k)\<close>: patches the rows with that
  id, none when there is no such row or \<open>k\<close> is \<^verbatim>\<open>undefined\<close>.
\<close>

definition update_balance :: "bool \<Rightarrow> id option \<Rightarrow> jsnum \<Rightarrow> store \<Rightarrow> store" where
  "update_balance ok k newBalance s =
     (case k of
        None \<Rightarrow> s
      | Some a \<Rightarrow>
          (case accounts s a of
             None \<Rightarrow> s
           | Some r \<Rightarrow>
               if ok then s\<lparr>accounts := (accounts s)(a \<mapsto> r\<lparr>balance := to_numeric newBalance\<rparr>)\<rparr>
               else s))"

text \<open>
  \<^verbatim>\<open>from('transactions').insert(row)\<close>. The store assigns the primary key \<open>k\<close>; it refuses
  the row when the call fails, when the key is taken, or when the account reference points
  nowhere (the schema's foreign key).
\<close>

definition insert_transaction :: "bool \<Rightarrow> id \<Rightarrow> txn_row \<Rightarrow> store \<Rightarrow> store option" where
  "insert_transaction ok k row s =
     (if ok \<and> map_of (transactions s) k = None \<and> accounts s (account_id row) \<noteq> None
      then Some (s\<lparr>transactions := transactions s @ [(k, row)]\<rparr>)
      else None)"

text \<open>\<^verbatim>\<open>from('transactions').delete().eq('id', k)\<close>.\<close>

definition delete_transaction :: "bool \<Rightarrow> id \<Rightarrow> store \<Rightarrow> store" where
  "delete_transaction ok k s =
     (if ok then s\<lparr>transactions := filter (\<lambda>p. fst p \<noteq> k) (transactions s)\<rparr> else s)"

section \<open>Adding a transaction (add-transaction.tsx)\<close>

text \<open>The form's state: the text fields as typed, the selected type, account and category.\<close>

record form =
  f_type :: txn_type
  f_amount :: string
  f_description :: string
  f_date :: string
  f_notes :: string
  selectedAccount :: "id option"
  selectedCategory :: "id option"

text \<open>The outcomes of the three awaited calls of \<^verbatim>\<open>handleSubmit\<close>, in program order.\<close>

record submit_net =
  insert_ok :: bool
  balance_ok :: bool
  update_ok :: bool

datatype submit_error = ValidationError string | RemoteError

record submit_result =
  error :: "submit_error option"
  calls :: "remote_call list"
  after :: store

definition rejected :: "submit_error \<Rightarrow> remote_call list \<Rightarrow> store \<Rightarrow> submit_result" where
  "rejected e cs s = \<lparr>error = Some e, calls = cs, after = s\<rparr>"

text \<open>
  \<^verbatim>\<open>handleSubmit\<close>. The two guards come first and return before any request; the first
  one fails on an empty amount or description or when no account is selected. A literal
  \<^verbatim>\<open>Infinity\<close> passes the second guard; it reaches the store as \<^verbatim>\<open>null\<close> in a NOT NULL
  column, which refuses the row. After the insert the balance is read, adjusted by the sign
  of the type, and written back; the results of these two calls are not inspected.
\<close>

definition handleSubmit :: "submit_net \<Rightarrow> id \<Rightarrow> form \<Rightarrow> store \<Rightarrow> submit_result" where
  "handleSubmit net k f s =
     (case (if f_amount f = [] \<or> f_description f = [] then None else selectedAccount f) of
        None \<Rightarrow> rejected (ValidationError ''Please fill in all required fields'') [] s
      | Some account \<Rightarrow>
          (case parseFloat (f_amount f) of
             NaN \<Rightarrow> rejected (ValidationError ''Please enter a valid amount'') [] s
           | NegInf \<Rightarrow> rejected (ValidationError ''Please enter a valid amount'') [] s
           | PosInf \<Rightarrow> rejected RemoteError [InsertTransaction] s
           | Num amountNum \<Rightarrow>
               if amountNum \<le> 0
               then rejected (ValidationError ''Please enter a valid amount'') [] s
               else
                 (case insert_transaction (insert_ok net) k
                         \<lparr>account_id = account,
                          category_id = selectedCategory f,
                          amount = amountNum,
                          type = f_type f,
                          description = f_description f,
                          date = f_date f,
                          txn_notes = f_notes f\<rparr> s of
                    None \<Rightarrow> rejected RemoteError [InsertTransaction] s
                  | Some s1 \<Rightarrow>
                      let data = select_balance (balance_ok net) (Some account) s1;
                          newBalance =
                            (if f_type f = Income
                             then js_add (Number (map_option balance data)) (Num amountNum)
                             else js_sub (Number (map_option balance data)) (Num amountNum))
                      in \<lparr>error = None,
                          calls = [InsertTransaction, SelectBalance, UpdateBalance],
                          after = update_balance (update_ok net) (Some account) newBalance s1\<rparr>)))"

section \<open>Deleting a transaction (transactions.tsx)\<close>

text \<open>
  An entry of the screen's list, as fetched earlier; the handler reads its id, type and
  amount. The joined category and account names are display data and left out.
\<close>

record transaction =
  t_id :: id
  t_description :: string
  t_amount :: rat
  t_type :: txn_type
  t_date :: string

text \<open>The list \<^verbatim>\<open>fetchTransactions\<close> shows for a store, up to its order.\<close>

definition listing :: "store \<Rightarrow> transaction list" where
  "listing s =
     map (\<lambda>(k, r). \<lparr>t_id = k, t_description = description r, t_amount = amount r,
                    t_type = type r, t_date = date r\<rparr>) (transactions s)"

text \<open>The outcomes of the awaited calls of \<^verbatim>\<open>handleDeleteTransaction\<close>, in program order.\<close>

record delete_net =
  owner_read_ok :: bool
  account_read_ok :: bool
  owner_reread_ok :: bool
  write_ok :: bool
  delete_ok :: bool

record delete_result =
  d_calls :: "remote_call list"
  d_after :: store

text \<open>
  \<^verbatim>\<open>handleDeleteTransaction\<close>: nothing happens when the id is not in the screen's list.
  Otherwise the owning account is looked up through the transaction row and its balance is
  read; only when that read returns a row is the inverse adjustment written (after a second
  lookup of the owning account). The delete request follows in either case.
\<close>

definition handleDeleteTransaction ::
  "delete_net \<Rightarrow> transaction list \<Rightarrow> id \<Rightarrow> store \<Rightarrow> delete_result" where
  "handleDeleteTransaction net txs transactionId s =
     (case find (\<lambda>t. t_id t = transactionId) txs of
        None \<Rightarrow> \<lparr>d_calls = [], d_after = s\<rparr>
      | Some t \<Rightarrow>
          (case select_balance (account_read_ok net)
                  (select_account_id (owner_read_ok net) transactionId s) s of
             None \<Rightarrow>
               \<lparr>d_calls = [SelectAccountId, SelectBalance, DeleteTransaction],
                d_after = delete_transaction (delete_ok net) transactionId s\<rparr>
           | Some accountData \<Rightarrow>
               let newBalance =
                     (if t_type t = Income
                      then js_sub (Number (Some (balance accountData))) (Num (t_amount t))
                      else js_add (Number (Some (balance accountData))) (Num (t_amount t)));
                   s1 = update_balance (write_ok net)
                          (select_account_id (owner_reread_ok net) transactionId s) newBalance s
               in \<lparr>d_calls = [SelectAccountId, SelectBalance, SelectAccountId, UpdateBalance,
                              DeleteTransaction],
                   d_after = delete_transaction (delete_ok net) transactionId s1\<rparr>))"

section \<open>Reports (reports.tsx)\<close>

subsection \<open>Totals and the category breakdown\<close>

text \<open>
  A row of the report query \<^verbatim>\<open>select('amount, type, category:categories(name, color)')\<close>:
  the joined category is null for a transaction without one, and a category's color may be
  NULL.
\<close>

record category_join =
  cat_name :: string
  cat_color :: "string option"

record report_row =
  r_amount :: rat
  r_type :: txn_type
  r_category :: "category_join option"

text \<open>\<^verbatim>\<open>filter(type).reduce((sum, t) => sum + Number(t.amount), 0)\<close>, for each type.\<close>

definition totalIncome :: "report_row list \<Rightarrow> rat" where
  "totalIncome ts = foldl (\<lambda>sum t. sum + r_amount t) 0 (filter (\<lambda>t. r_type t = Income) ts)"

definition totalExpense :: "report_row list \<Rightarrow> rat" where
  "totalExpense ts = foldl (\<lambda>sum t. sum + r_amount t) 0 (filter (\<lambda>t. r_type t = Expense) ts)"

text \<open>
  \<^verbatim>\<open>t.category?.name || 'Uncategorized'\<close> and \<^verbatim>\<open>t.category?.color || '#6B7280'\<close>: the
  fallback is taken for a missing category and for an empty (or NULL) text.
\<close>

definition catName :: "report_row \<Rightarrow> string" where
  "catName t =
     (case r_category t of
        None \<Rightarrow> ''Uncategorized''
      | Some c \<Rightarrow> if cat_name c = [] then ''Uncategorized'' else cat_name c)"

definition catColor :: "report_row \<Rightarrow> string" where
  "catColor t =
     (case r_category t of
        None \<Rightarrow> ''#6B7280''
      | Some c \<Rightarrow>
          (case cat_color c of
             None \<Rightarrow> ''#6B7280''
           | Some col \<Rightarrow> if col = [] then ''#6B7280'' else col))"

text \<open>
  \<^verbatim>\<open>categoryMap\<close> is an object used as a dictionary: an association list here, a new key
  going to the end. (A name that \<^verbatim>\<open>Object.prototype\<close> already defines, such as
  \<^verbatim>\<open>constructor\<close>, is found by the lookup before it was ever written; such names are
  outside this model.)
\<close>

record map_entry =
  e_amount :: rat
  e_color :: string

definition addToCategoryMap :: "(string \<times> map_entry) list \<Rightarrow> report_row \<Rightarrow> (string \<times> map_entry) list" where
  "addToCategoryMap categoryMap t =
     (let m1 = (if map_of categoryMap (catName t) = None
                then categoryMap @ [(catName t, \<lparr>e_amount = 0, e_color = catColor t\<rparr>)]
                else categoryMap)
      in map (\<lambda>(k, e). if k = catName t then (k, e\<lparr>e_amount := e_amount e + r_amount t\<rparr>)
                         else (k, e)) m1)"

text \<open>The \<^verbatim>\<open>forEach\<close> runs over the rows that pass \<^verbatim>\<open>t.type === 'expense' && t.category\<close>.\<close>

definition categoryMap :: "report_row list \<Rightarrow> (string \<times> map_entry) list" where
  "categoryMap ts =
     foldl addToCategoryMap [] (filter (\<lambda>t. r_type t = Expense \<and> r_category t \<noteq> None) ts)"

text \<open>
  \<^verbatim>\<open>Object.keys\<close> lists the keys that are array indices first (a canonical decimal numeral
  below \<open>2^32 - 1\<close>), in ascending numeric order, and then all other keys in the order in
  which they were written.
\<close>

definition isArrayIndex :: "string \<Rightarrow> bool" where
  "isArrayIndex k =
     (k \<noteq> [] \<and> dropWhile isDigit k = [] \<and> (hd k \<noteq> CHR ''0'' \<or> k = ''0'')
      \<and> digitsValue k < 4294967295)"

definition Object_entries :: "(string \<times> 'a) list \<Rightarrow> (string \<times> 'a) list" where
  "Object_entries m =
     sort_key (\<lambda>p. digitsValue (fst p)) (filter (\<lambda>p. isArrayIndex (fst p)) m)
       @ filter (\<lambda>p. \<not> isArrayIndex (fst p)) m"

record CategorySpending =
  category :: string
  cs_amount :: rat
  cs_color :: string
  percentage :: rat

text \<open>
  \<^verbatim>\<open>Object.keys(categoryMap).map(...).sort((a, b) => b.amount - a.amount)\<close>: the sort is stable
  and descending in the amount, which is a stable ascending sort on the negated amount.
\<close>

definition categoryArray :: "report_row list \<Rightarrow> CategorySpending list" where
  "categoryArray ts =
     sort_key (\<lambda>c. - cs_amount c)
       (map (\<lambda>(k, e).
               \<lparr>category = k, cs_amount = e_amount e, cs_color = e_color e,
                percentage = (if 0 < totalExpense ts then e_amount e / totalExpense ts * 100 else 0)\<rparr>)
          (Object_entries (categoryMap ts)))"

subsection \<open>Net amount and savings rate\<close>




subsection \<open>The monthly overview of the year view\<close>

text \<open>
  A row of the year query \<^verbatim>\<open>select('amount, type, date')\<close>. The store's \<^verbatim>\<open>date\<close> column is a
  calendar date, sent as \<^verbatim>\<open>YYYY-MM-DD\<close>.
\<close>

record ymd =
  d_year :: nat
  d_month :: nat
  d_day :: nat

record year_row =
  y_amount :: rat
  y_type :: txn_type
  y_date :: ymd

definition months :: "string list" where
  "months = [''Jan'', ''Feb'', ''Mar'', ''Apr'', ''May'', ''Jun'',
             ''Jul'', ''Aug'', ''Sep'', ''Oct'', ''Nov'', ''Dec'']"

text \<open>
  \<^verbatim>\<open>new Date(t.date).toLocaleDateString('en-US', { month: 'short' })\<close>. A date-only text is
  read as midnight UTC of that day, and the label is formatted in the device's time zone,
  given by its offset \<open>tz\<close> from UTC in minutes (negative west of Greenwich). West of
  Greenwich that instant still belongs to the evening before, so the first day of a month is
  labelled with the month before it; at or east of Greenwich the day is the same.
\<close>

definition localMonth :: "int \<Rightarrow> ymd \<Rightarrow> nat" where
  "localMonth tz dt =
     (if tz < 0 \<and> d_day dt = 1 then (d_month dt + 10) mod 12 else (d_month dt + 11) mod 12)"

definition monthShort :: "int \<Rightarrow> ymd \<Rightarrow> string" where
  "monthShort tz dt = months ! localMonth tz dt"

record month_entry =
  m_income :: rat
  m_expense :: rat

definition addToMonthlyMap ::
  "int \<Rightarrow> (string \<times> month_entry) list \<Rightarrow> year_row \<Rightarrow> (string \<times> month_entry) list" where
  "addToMonthlyMap tz monthlyMap t =
     (let m1 = (if map_of monthlyMap (monthShort tz (y_date t)) = None
                then monthlyMap @ [(monthShort tz (y_date t), \<lparr>m_income = 0, m_expense = 0\<rparr>)]
                else monthlyMap)
      in map (\<lambda>(k, e).
                if k = monthShort tz (y_date t)
                then (k, if y_type t = Income then e\<lparr>m_income := m_income e + y_amount t\<rparr>
                         else e\<lparr>m_expense := m_expense e + y_amount t\<rparr>)
                else (k, e)) m1)"

text \<open>\<^verbatim>\<open>yearTransactions?.forEach(...)\<close>: nothing is added when the query gave no data.\<close>

definition monthlyMap :: "int \<Rightarrow> year_row list option \<Rightarrow> (string \<times> month_entry) list" where
  "monthlyMap tz yearTransactions =
     (case yearTransactions of None \<Rightarrow> [] | Some ts \<Rightarrow> foldl (addToMonthlyMap tz) [] ts)"

record MonthlyData =
  month :: string
  income :: rat
  expense :: rat

definition monthlyArray :: "int \<Rightarrow> year_row list option \<Rightarrow> MonthlyData list" where
  "monthlyArray tz yearTransactions =
     map (\<lambda>mo.
            \<lparr>month = mo,
             income = (case map_of (monthlyMap tz yearTransactions) mo of
                         None \<Rightarrow> 0 | Some e \<Rightarrow> m_income e),
             expense = (case map_of (monthlyMap tz yearTransactions) mo of
                          None \<Rightarrow> 0 | Some e \<Rightarrow> m_expense e)\<rparr>) months"

section \<open>Budgets (the budgets screen)\<close>




section \<open>Provisioning at sign-up (AuthContext.tsx)\<close>

record profile_row =
  p_id :: id
  full_name :: string
  currency :: string

record category_seed =
  name :: string
  ctype :: txn_type
  icon :: string
  color :: string
  is_system :: bool

record category_row = category_seed +
  user_id :: id

record auth_tables =
  profiles :: "profile_row list"
  categories :: "category_row list"

text \<open>What \<^verbatim>\<open>supabase.auth.signUp\<close> answered: \<^verbatim>\<open>data.user\<close> and \<^verbatim>\<open>error\<close>.\<close>

record signup_response =
  su_user :: "id option"
  su_error :: "string option"

definition defaultCategories :: "category_seed list" where
  "defaultCategories =
     [\<lparr>name = ''Salary'', ctype = Income, icon = ''briefcase'', color = ''#10B981'', is_system = True\<rparr>,
      \<lparr>name = ''Freelance'', ctype = Income, icon = ''laptop'', color = ''#3B82F6'', is_system = True\<rparr>,
      \<lparr>name = ''Food & Dining'', ctype = Expense, icon = ''utensils'', color = ''#EF4444'', is_system = True\<rparr>,
      \<lparr>name = ''Transportation'', ctype = Expense, icon = ''car'', color = ''#F59E0B'', is_system = True\<rparr>,
      \<lparr>name = ''Shopping'', ctype = Expense, icon = ''shopping-bag'', color = ''#8B5CF6'', is_system = True\<rparr>,
      \<lparr>name = ''Entertainment'', ctype = Expense, icon = ''film'', color = ''#EC4899'', is_system = True\<rparr>,
      \<lparr>name = ''Bills & Utilities'', ctype = Expense, icon = ''receipt'', color = ''#6366F1'', is_system = True\<rparr>,
      \<lparr>name = ''Healthcare'', ctype = Expense, icon = ''heart'', color = ''#14B8A6'', is_system = True\<rparr>]"

text \<open>\<^verbatim>\<open>{ ...cat, user_id: data.user.id }\<close>.\<close>

definition withUser :: "id \<Rightarrow> category_seed \<Rightarrow> category_row" where
  "withUser uid cat = category_seed.extend cat \<lparr>user_id = uid\<rparr>"

text \<open>
  The two inserts; a profile's primary key is the user's id, so a second profile for the
  same user is refused. The list of categories goes in one request.
\<close>

definition insert_profile :: "bool \<Rightarrow> profile_row \<Rightarrow> auth_tables \<Rightarrow> auth_tables" where
  "insert_profile ok row db =
     (if ok \<and> p_id row \<notin> set (map p_id (profiles db))
      then db\<lparr>profiles := profiles db @ [row]\<rparr> else db)"

definition insert_categories :: "bool \<Rightarrow> category_row list \<Rightarrow> auth_tables \<Rightarrow> auth_tables" where
  "insert_categories ok rows db = (if ok then db\<lparr>categories := categories db @ rows\<rparr> else db)"

text \<open>
  \<^verbatim>\<open>signUp\<close>: when the identity was created (\<^verbatim>\<open>!error && data.user\<close>) the profile and the
  default categories are inserted; the results of the inserts are not inspected. The
  function returns the identity service's error.
\<close>

definition signUp ::
  "signup_response \<Rightarrow> string \<Rightarrow> bool \<Rightarrow> bool \<Rightarrow> auth_tables \<Rightarrow> auth_tables \<times> string option" where
  "signUp resp fullName profile_ok categories_ok db =
     (case su_error resp of
        Some e \<Rightarrow> (db, Some e)
      | None \<Rightarrow>
          (case su_user resp of
             None \<Rightarrow> (db, None)
           | Some uid \<Rightarrow>
               (insert_categories categories_ok (map (withUser uid) defaultCategories)
                  (insert_profile profile_ok
                     \<lparr>p_id = uid, full_name = fullName, currency = ''USD''\<rparr> db),
                None)))"

section \<open>Scenario inputs\<close>

text \<open>
  The inputs of the worked scenarios: an account with balance 1000.00, an expense of 50.00
  entered in the form, and the store as it stands once that expense is recorded.
\<close>

definition scenario_store :: store where
  "scenario_store =
     \<lparr>accounts = [''acc-1'' \<mapsto> \<lparr>balance = Some 1000\<rparr>], transactions = []\<rparr>"

definition scenario_form :: form where
  "scenario_form =
     \<lparr>f_type = Expense, f_amount = ''50.00'', f_description = ''Lunch'',
      f_date = ''2024-03-15'', f_notes = [], selectedAccount = Some ''acc-1'',
      selectedCategory = None\<rparr>"

definition scenario_row :: txn_row where
  "scenario_row =
     \<lparr>account_id = ''acc-1'', category_id = None, amount = 50, type = Expense,
      description = ''Lunch'', date = ''2024-03-15'', txn_notes = []\<rparr>"

definition scenario_ledger :: store where
  "scenario_ledger =
     \<lparr>accounts = [''acc-1'' \<mapsto> \<lparr>balance = Some 950\<rparr>],
      transactions = [(''txn-1'', scenario_row)]\<rparr>"

definition submit_all_ok :: submit_net where
  "submit_all_ok = \<lparr>insert_ok = True, balance_ok = True, update_ok = True\<rparr>"

definition delete_all_ok :: delete_net where
  "delete_all_ok =
     \<lparr>owner_read_ok = True, account_read_ok = True, owner_reread_ok = True, write_ok = True,
      delete_ok = True\<rparr>"

text \<open>
  Report rows: two expenses on food, one on transport, one expense without a category and a
  salary; and the year rows of the monthly scenario, an income in March and an expense in
  July.
\<close>

definition food :: category_join where
  "food = \<lparr>cat_name = ''Food & Dining'', cat_color = Some ''#EF4444''\<rparr>"

definition transport :: category_join where
  "transport = \<lparr>cat_name = ''Transportation'', cat_color = Some ''#F59E0B''\<rparr>"

definition categorized_rows :: "report_row list" where
  "categorized_rows =
     [\<lparr>r_amount = 30, r_type = Expense, r_category = Some food\<rparr>,
      \<lparr>r_amount = 50, r_type = Expense, r_category = Some transport\<rparr>,
      \<lparr>r_amount = 20, r_type = Expense, r_category = Some food\<rparr>,
      \<lparr>r_amount = 1000, r_type = Income, r_category = None\<rparr>]"

definition uncategorized_row :: report_row where
  "uncategorized_row = \<lparr>r_amount = 50, r_type = Expense, r_category = None\<rparr>"

definition scenario_year :: "year_row list" where
  "scenario_year =
     [\<lparr>y_amount = 500, y_type = Income, y_date = \<lparr>d_year = 2024, d_month = 3, d_day = 15\<rparr>\<rparr>,
      \<lparr>y_amount = 200, y_type = Expense, y_date = \<lparr>d_year = 2024, d_month = 7, d_day = 20\<rparr>\<rparr>]"

definition first_of_march :: year_row where
  "first_of_march =
     \<lparr>y_amount = 500, y_type = Income, y_date = \<lparr>d_year = 2024, d_month = 3, d_day = 1\<rparr>\<rparr>"

section \<open>Properties of the balance maintenance\<close>

lemma parseFloat_scenario: "parseFloat ''50.00'' = Num 50"
  by (simp add: parseFloat_def unsignedLiteral_def isWhiteSpace_def isDigit_def startsWith_def
      digitsValue_def exponentPart_def scale10_def)

lemma parseFloat_letters: "parseFloat ''abc'' = NaN"
  by (simp add: parseFloat_def unsignedLiteral_def isWhiteSpace_def isDigit_def startsWith_def)







text \<open>
  C9, as the handler has it. An empty amount or description, no selected account, or an
  amount text that \<^verbatim>\<open>parseFloat\<close> reads as NaN or as a value that is not positive: the
  handler stops with a validation message, issues no request and leaves the store as it is.
  The date text is not looked at.
\<close>

theorem handleSubmit_validation:
  assumes "f_amount f = [] \<or> f_description f = [] \<or> selectedAccount f = None
           \<or> parseFloat (f_amount f) = NaN \<or> parseFloat (f_amount f) = NegInf
           \<or> (\<exists>x. parseFloat (f_amount f) = Num x \<and> x \<le> 0)"
  shows "\<exists>msg. handleSubmit net k f s =
           \<lparr>error = Some (ValidationError msg), calls = [], after = s\<rparr>"
  using assms
  by (auto simp add: handleSubmit_def rejected_def split: option.splits jsnum.splits)

theorem handleSubmit_validation_witness:
  "parseFloat ''abc'' = NaN
   \<and> (\<exists>msg. handleSubmit submit_all_ok ''txn-1'' (scenario_form\<lparr>f_amount := ''abc''\<rparr>)
         scenario_store =
       \<lparr>error = Some (ValidationError msg), calls = [], after = scenario_store\<rparr>)"
  using handleSubmit_validation[of "scenario_form\<lparr>f_amount := ''abc''\<rparr>" submit_all_ok
      "''txn-1''" scenario_store]
  by (simp add: parseFloat_letters)

text \<open>
  C9 as stated fails for a malformed date: the form below passes both guards, so the insert
  request is issued; here the store refuses it, and the error shown is the store's, not a
  validation message.
\<close>

theorem handleSubmit_malformed_date_reaches_store:
  "handleSubmit \<lparr>insert_ok = False, balance_ok = True, update_ok = True\<rparr> ''txn-1''
     (scenario_form\<lparr>f_date := ''not-a-date''\<rparr>) scenario_store =
   \<lparr>error = Some RemoteError, calls = [InsertTransaction], after = scenario_store\<rparr>"
  by (simp add: handleSubmit_def insert_transaction_def rejected_def scenario_form_def
      parseFloat_scenario)

text \<open>
  C10. When the transaction is in the screen's list, the delete request is the last call
  whatever happened before, and the ledger afterwards is what that request alone makes of
  it. When the balance read gave no row (a failed call or no such row), no balance write is
  issued and the accounts are as before.
\<close>

theorem delete_runs_unconditionally:
  assumes "find (\<lambda>t. t_id t = k) txs = Some t"
  shows "last (d_calls (handleDeleteTransaction net txs k s)) = DeleteTransaction
       \<and> transactions (d_after (handleDeleteTransaction net txs k s)) =
           (if delete_ok net then filter (\<lambda>p. fst p \<noteq> k) (transactions s) else transactions s)
       \<and> (select_balance (account_read_ok net) (select_account_id (owner_read_ok net) k s) s = None
            \<longrightarrow> accounts (d_after (handleDeleteTransaction net txs k s)) = accounts s
              \<and> UpdateBalance \<notin> set (d_calls (handleDeleteTransaction net txs k s)))"
  using assms
  by (auto simp add: handleDeleteTransaction_def delete_transaction_def update_balance_def Let_def
      split: option.splits)

theorem delete_runs_unconditionally_witness:
  "select_balance False (select_account_id True ''txn-1'' scenario_ledger) scenario_ledger = None
   \<and> d_calls (handleDeleteTransaction (delete_all_ok\<lparr>account_read_ok := False\<rparr>)
        (listing scenario_ledger) ''txn-1'' scenario_ledger) =
       [SelectAccountId, SelectBalance, DeleteTransaction]
   \<and> transactions (d_after (handleDeleteTransaction (delete_all_ok\<lparr>account_read_ok := False\<rparr>)
        (listing scenario_ledger) ''txn-1'' scenario_ledger)) = []
   \<and> accounts (d_after (handleDeleteTransaction (delete_all_ok\<lparr>account_read_ok := False\<rparr>)
        (listing scenario_ledger) ''txn-1'' scenario_ledger)) = [''acc-1'' \<mapsto> \<lparr>balance = Some 950\<rparr>]"
  using delete_runs_unconditionally[of "''txn-1''" "listing scenario_ledger"
      "\<lparr>t_id = ''txn-1'', t_description = ''Lunch'', t_amount = 50, t_type = Expense,
        t_date = ''2024-03-15''\<rparr>" "delete_all_ok\<lparr>account_read_ok := False\<rparr>" scenario_ledger]
  by (simp add: handleDeleteTransaction_def delete_transaction_def select_balance_def
      select_account_id_def listing_def scenario_ledger_def scenario_row_def delete_all_ok_def)

text \<open>
  Whatever the outcome of the calls, a submission leaves every account other than the
  selected one as it was, and a submission that ends with an error leaves the whole store
  as it was.
\<close>

theorem handleSubmit_other_accounts:
  "selectedAccount f \<noteq> Some a' \<Longrightarrow> accounts (after (handleSubmit net k f s)) a' = accounts s a'"
  by (auto simp add: handleSubmit_def rejected_def insert_transaction_def update_balance_def Let_def
      split: option.splits jsnum.splits if_splits)

theorem handleSubmit_other_accounts_witness:
  "accounts (after (handleSubmit submit_all_ok ''txn-1'' scenario_form scenario_store)) ''acc-2'' =
     None"
  using handleSubmit_other_accounts[of scenario_form "''acc-2''" submit_all_ok "''txn-1''"
      scenario_store]
  by (simp add: scenario_form_def scenario_store_def)

theorem handleSubmit_error_keeps_store:
  "error (handleSubmit net k f s) \<noteq> None \<Longrightarrow> after (handleSubmit net k f s) = s"
  by (auto simp add: handleSubmit_def rejected_def Let_def
      split: option.splits jsnum.splits if_splits)

theorem handleSubmit_error_keeps_store_witness:
  "error (handleSubmit (submit_all_ok\<lparr>insert_ok := False\<rparr>) ''txn-1'' scenario_form scenario_store)
     = Some RemoteError
   \<and> after (handleSubmit (submit_all_ok\<lparr>insert_ok := False\<rparr>) ''txn-1'' scenario_form
       scenario_store) = scenario_store"
  using handleSubmit_error_keeps_store[of "submit_all_ok\<lparr>insert_ok := False\<rparr>" "''txn-1''"
      scenario_form scenario_store]
  by (simp add: handleSubmit_def insert_transaction_def rejected_def scenario_form_def
      submit_all_ok_def parseFloat_scenario)

text \<open>
  \<^verbatim>\<open>parseFloat\<close> reads a numeric prefix and drops the rest, so the amount text \<^verbatim>\<open>12abc\<close>
  passes the guard as 12.
\<close>

lemma parseFloat_prefix: "parseFloat ''12abc'' = Num 12"
  by (simp add: parseFloat_def unsignedLiteral_def isWhiteSpace_def isDigit_def startsWith_def
      digitsValue_def exponentPart_def scale10_def)

section \<open>Properties of the reports\<close>

subsection \<open>Grouping into an insertion-ordered dictionary\<close>

lemma map_of_map_bump:
  "map_of (map (\<lambda>(k, e). if k = key then (k, g e) else (k, e)) xs) k' =
     (if k' = key then map_option g (map_of xs key) else map_of xs k')"
  by (induction xs) auto

lemma keys_map_bump:
  "map fst (map (\<lambda>(k, e). if k = key then (k, g e) else (k, e)) xs) = map fst xs"
  by (induction xs) auto

lemma foldl_plus_sum_list:
  "foldl (\<lambda>sum t. sum + f t) (a::rat) xs = a + sum_list (map f xs)"
  by (induction xs arbitrary: a) (simp_all add: add.assoc)

lemma sum_list_insort_key:
  "sum_list (map f (insort_key g x xs)) = (f x :: rat) + sum_list (map f xs)"
  by (induction xs) (simp_all add: add.left_commute)

lemma sum_list_sort_key:
  "sum_list (map f (sort_key g xs)) = (sum_list (map f xs) :: rat)"
  by (induction xs) (simp_all add: sum_list_insort_key)

lemma sum_list_filter_split:
  "sum_list (map f (filter P xs)) + sum_list (map f (filter (\<lambda>x. \<not> P x) xs)) =
     (sum_list (map f xs) :: rat)"
  by (induction xs) simp_all

lemma sum_list_Object_entries:
  "sum_list (map f (Object_entries m)) = (sum_list (map f m) :: rat)"
  by (simp add: Object_entries_def sum_list_sort_key sum_list_filter_split)

lemma set_Object_entries: "set (Object_entries m) = set m"
  by (auto simp add: Object_entries_def)

lemma Object_entries_plain:
  assumes "\<forall>k\<in>set (map fst m). \<not> isArrayIndex k"
  shows "Object_entries m = m"
proof -
  have "filter (\<lambda>p. isArrayIndex (fst p)) m = []"
    using assms by (auto simp add: filter_empty_conv)
  moreover have "filter (\<lambda>p. \<not> isArrayIndex (fst p)) m = m"
    using assms by (auto simp add: filter_id_conv)
  ultimately show ?thesis
    by (simp add: Object_entries_def)
qed

lemma keys_addToCategoryMap:
  "map fst (addToCategoryMap m t) =
     (if catName t \<in> set (map fst m) then map fst m else map fst m @ [catName t])"
  by (auto simp add: addToCategoryMap_def keys_map_bump map_of_eq_None_iff)

lemma amount_addToCategoryMap:
  "(case map_of (addToCategoryMap m t) k of None \<Rightarrow> 0 | Some e \<Rightarrow> e_amount e) =
     (case map_of m k of None \<Rightarrow> 0 | Some e \<Rightarrow> e_amount e)
       + (if catName t = k then r_amount t else 0)"
  by (auto simp add: addToCategoryMap_def map_of_map_bump split: option.splits)

lemma amount_foldl:
  "(case map_of (foldl addToCategoryMap m ts) k of None \<Rightarrow> 0 | Some e \<Rightarrow> e_amount e) =
     (case map_of m k of None \<Rightarrow> 0 | Some e \<Rightarrow> e_amount e)
       + sum_list (map r_amount (filter (\<lambda>t. catName t = k) ts))"
  by (induction ts arbitrary: m) (simp_all add: amount_addToCategoryMap)

lemma keys_foldl:
  "map fst (foldl addToCategoryMap m ts) =
     foldl (\<lambda>ks k. if k \<in> set ks then ks else ks @ [k]) (map fst m) (map catName ts)"
  by (induction ts arbitrary: m) (simp_all add: keys_addToCategoryMap)

lemma first_seen_set:
  "set (foldl (\<lambda>ks k. if k \<in> set ks then ks else ks @ [k]) ks0 xs) = set ks0 \<union> set xs"
  by (induction xs arbitrary: ks0) auto

lemma first_seen_distinct:
  "distinct ks0 \<Longrightarrow> distinct (foldl (\<lambda>ks k. if k \<in> set ks then ks else ks @ [k]) ks0 (xs::'a list))"
  by (induction xs arbitrary: ks0) auto

lemma first_seen_remdups:
  "foldl (\<lambda>ks k. if k \<in> set ks then ks else ks @ [k]) [] xs = rev (remdups (rev xs))"
proof (induction xs rule: rev_induct)
  case Nil
  then show ?case by simp
next
  case (snoc x xs)
  have "set (foldl (\<lambda>ks k. if k \<in> set ks then ks else ks @ [k]) [] xs) = set xs"
    by (simp add: first_seen_set)
  then show ?case using snoc by simp
qed

lemma sum_bump:
  fixes xs :: "(string \<times> map_entry) list"
  assumes "distinct (map fst xs)" and "k \<in> set (map fst xs)"
  shows "sum_list (map (\<lambda>p. e_amount (snd p))
           (map (\<lambda>(k', e). if k' = k then (k', e\<lparr>e_amount := e_amount e + d\<rparr>) else (k', e)) xs)) =
         sum_list (map (\<lambda>p. e_amount (snd p)) xs) + d"
  using assms
proof (induction xs)
  case Nil
  then show ?case by simp
next
  case (Cons a xs)
  show ?case
  proof (cases "fst a = k")
    case True
    then have "k \<notin> set (map fst xs)"
      using Cons.prems(1) by auto
    then have same:
      "map (\<lambda>(k', e). if k' = k then (k', e\<lparr>e_amount := e_amount e + d\<rparr>) else (k', e)) xs = xs"
      by (induction xs) auto
    show ?thesis
      using True same by (cases a) simp
  next
    case False
    then have "k \<in> set (map fst xs)"
      using Cons.prems(2) by auto
    then show ?thesis
      using Cons False by (cases a) simp
  qed
qed

lemma sum_groups_add:
  assumes "distinct (map fst m)"
  shows "sum_list (map (\<lambda>p. e_amount (snd p)) (addToCategoryMap m t)) =
         sum_list (map (\<lambda>p. e_amount (snd p)) m) + r_amount t"
proof (cases "map_of m (catName t) = None")
  case True
  then have "catName t \<notin> set (map fst m)"
    by (simp add: map_of_eq_None_iff)
  then have d: "distinct (map fst (m @ [(catName t, \<lparr>e_amount = 0, e_color = catColor t\<rparr>)]))"
    using assms by simp
  show ?thesis
    using True sum_bump[OF d, of "catName t" "r_amount t"]
    by (simp add: addToCategoryMap_def)
next
  case False
  then have mem: "catName t \<in> set (map fst m)"
    by (simp add: map_of_eq_None_iff)
  from False have "addToCategoryMap m t =
      map (\<lambda>(k, e). if k = catName t then (k, e\<lparr>e_amount := e_amount e + r_amount t\<rparr>)
                       else (k, e)) m"
    unfolding addToCategoryMap_def Let_def by (simp only: if_False)
  then show ?thesis
    using sum_bump[OF assms mem, of "r_amount t"] by simp
qed

lemma sum_list_scaled:
  "sum_list (map (\<lambda>p. f p / c * 100) xs) = (sum_list (map f xs) / c * 100 :: rat)"
  by (induction xs) (simp_all add: add_divide_distrib distrib_right)

lemma distinct_keys_add: "distinct (map fst m) \<Longrightarrow> distinct (map fst (addToCategoryMap m t))"
  by (simp add: keys_addToCategoryMap)

lemma sum_groups_foldl:
  "distinct (map fst m) \<Longrightarrow>
   sum_list (map (\<lambda>p. e_amount (snd p)) (foldl addToCategoryMap m ts)) =
   sum_list (map (\<lambda>p. e_amount (snd p)) m) + sum_list (map r_amount ts)"
  by (induction ts arbitrary: m) (simp_all add: sum_groups_add distinct_keys_add add.assoc)

lemma percent_sum:
  assumes "0 < totalExpense ts"
  shows "sum_list (map percentage (categoryArray ts)) =
         sum_list (map r_amount (filter (\<lambda>t. r_type t = Expense \<and> r_category t \<noteq> None) ts))
           / totalExpense ts * 100"
proof -
  let ?E = "totalExpense ts"
  have "sum_list (map percentage (categoryArray ts)) =
        sum_list (map (\<lambda>p. e_amount (snd p) / ?E * 100) (Object_entries (categoryMap ts)))"
    using assms by (simp add: categoryArray_def sum_list_sort_key comp_def case_prod_unfold)
  also have "\<dots> = sum_list (map (\<lambda>p. e_amount (snd p) / ?E * 100) (categoryMap ts))"
    by (rule sum_list_Object_entries)
  also have "\<dots> = sum_list (map (\<lambda>p. e_amount (snd p)) (categoryMap ts)) / ?E * 100"
    by (rule sum_list_scaled)
  finally show ?thesis
    by (simp add: categoryMap_def sum_groups_foldl)
qed


lemma distinct_keys_categoryMap: "distinct (map fst (categoryMap ts))"
  by (simp add: categoryMap_def keys_foldl first_seen_distinct)

lemma keys_categoryMap:
  "map fst (categoryMap ts) =
     rev (remdups (rev (map catName (filter (\<lambda>t. r_type t = Expense \<and> r_category t \<noteq> None) ts))))"
  by (simp add: categoryMap_def keys_foldl first_seen_remdups)

lemma entry_categoryMap:
  assumes "(k, e) \<in> set (categoryMap ts)"
  shows "e_amount e =
     sum_list (map r_amount
       (filter (\<lambda>t. r_type t = Expense \<and> r_category t \<noteq> None \<and> catName t = k) ts))"
proof -
  have "map_of (categoryMap ts) k = Some e"
    using assms distinct_keys_categoryMap by simp
  then have "e_amount e = (case map_of (categoryMap ts) k of None \<Rightarrow> 0 | Some e \<Rightarrow> e_amount e)"
    by simp
  also have "\<dots> = sum_list (map r_amount (filter (\<lambda>t. catName t = k)
       (filter (\<lambda>t. r_type t = Expense \<and> r_category t \<noteq> None) ts)))"
    unfolding categoryMap_def by (simp only: amount_foldl) simp
  finally show ?thesis
    by (simp add: conj_commute conj_left_commute cong: conj_cong)
qed


subsection \<open>The category breakdown\<close>

text \<open>
  C3. The breakdown leaves out every expense that has no category: the filter before the
  grouping drops it, so the \<^verbatim>\<open>Uncategorized\<close> group is never made for it. A single such
  expense of 50 counts in the expense total and gives an empty breakdown.
\<close>

theorem categoryArray_omits_uncategorized:
  "totalExpense [uncategorized_row] = 50 \<and> categoryArray [uncategorized_row] = []"
  by (simp add: totalExpense_def categoryArray_def categoryMap_def Object_entries_def
      uncategorized_row_def)

text \<open>
  C4. With one expense of 50 without a category and one of 50 on food, the expense total
  is 100 and the only percentage of the breakdown is 50: the percentages do not add up to
  100, because the total counts the expense that the breakdown left out.
\<close>

theorem categoryArray_percentages_short:
  "totalExpense [uncategorized_row, \<lparr>r_amount = 50, r_type = Expense, r_category = Some food\<rparr>] = 100
   \<and> map percentage
       (categoryArray [uncategorized_row, \<lparr>r_amount = 50, r_type = Expense, r_category = Some food\<rparr>])
     = [50]"
  by (simp add: totalExpense_def categoryArray_def categoryMap_def addToCategoryMap_def
      Object_entries_def isArrayIndex_def isDigit_def catName_def catColor_def
      uncategorized_row_def food_def)

lemma categoryArray_categorized_rows:
  "categoryArray categorized_rows =
     [\<lparr>category = ''Food & Dining'', cs_amount = 50, cs_color = ''#EF4444'', percentage = 50\<rparr>,
      \<lparr>category = ''Transportation'', cs_amount = 50, cs_color = ''#F59E0B'', percentage = 50\<rparr>]"
  by (simp add: totalExpense_def categoryArray_def categoryMap_def addToCategoryMap_def
      Object_entries_def isArrayIndex_def isDigit_def catName_def catColor_def
      categorized_rows_def food_def transport_def)

text \<open>
  What the breakdown does guarantee. Its groups are in descending order of amount, and groups
  of equal amount stand in the order in which \<^verbatim>\<open>Object.keys\<close> lists them. The dictionary
  holds the group names in the order in which they were first met among the expenses that
  have a category, and \<^verbatim>\<open>Object.keys\<close> keeps that order unless a name is an array index.
\<close>

theorem categoryArray_sorted_stable:
  "sorted_wrt (\<lambda>a b. cs_amount b \<le> cs_amount a) (categoryArray ts)
   \<and> map category (filter (\<lambda>c. cs_amount c = v) (categoryArray ts)) =
       map fst (filter (\<lambda>p. e_amount (snd p) = v) (Object_entries (categoryMap ts)))
   \<and> map fst (categoryMap ts) =
       rev (remdups (rev (map catName (filter (\<lambda>t. r_type t = Expense \<and> r_category t \<noteq> None) ts))))
   \<and> ((\<forall>k\<in>set (map fst (categoryMap ts)). \<not> isArrayIndex k)
        \<longrightarrow> Object_entries (categoryMap ts) = categoryMap ts)"
proof -
  let ?un = "map (\<lambda>(k, e).
               \<lparr>category = k, cs_amount = e_amount e, cs_color = e_color e,
                percentage = (if 0 < totalExpense ts then e_amount e / totalExpense ts * 100 else 0)\<rparr>)
          (Object_entries (categoryMap ts))"
  have "sorted (map (\<lambda>c. - cs_amount c) (categoryArray ts))"
    unfolding categoryArray_def by (rule sorted_sort_key)
  then have a: "sorted_wrt (\<lambda>a b. cs_amount b \<le> cs_amount a) (categoryArray ts)"
    by (simp add: sorted_map)
  have "filter (\<lambda>c. - cs_amount c = - v) (categoryArray ts) = filter (\<lambda>c. - cs_amount c = - v) ?un"
    unfolding categoryArray_def by (rule sort_key_stable)
  then have "filter (\<lambda>c. cs_amount c = v) (categoryArray ts) = filter (\<lambda>c. cs_amount c = v) ?un"
    by simp
  then have b: "map category (filter (\<lambda>c. cs_amount c = v) (categoryArray ts)) =
       map fst (filter (\<lambda>p. e_amount (snd p) = v) (Object_entries (categoryMap ts)))"
    by (simp add: filter_map comp_def case_prod_unfold)
  show ?thesis
    using a b keys_categoryMap Object_entries_plain[of "categoryMap ts"] by simp
qed

theorem categoryArray_sorted_stable_witness:
  "map category (categoryArray categorized_rows) = [''Food & Dining'', ''Transportation'']
   \<and> map cs_amount (categoryArray categorized_rows) = [50, 50]
   \<and> Object_entries (categoryMap categorized_rows) = categoryMap categorized_rows"
proof -
  have cm: "categoryMap categorized_rows =
      [(''Food & Dining'', \<lparr>e_amount = 50, e_color = ''#EF4444''\<rparr>),
       (''Transportation'', \<lparr>e_amount = 50, e_color = ''#F59E0B''\<rparr>)]"
    by (simp add: categoryMap_def addToCategoryMap_def catName_def catColor_def
        categorized_rows_def food_def transport_def)
  have "\<forall>k\<in>set (map fst (categoryMap categorized_rows)). \<not> isArrayIndex k"
    unfolding cm by (simp add: isArrayIndex_def isDigit_def)
  with categoryArray_sorted_stable[of categorized_rows 50]
  have "Object_entries (categoryMap categorized_rows) = categoryMap categorized_rows"
    by blast
  then show ?thesis
    by (simp add: categoryArray_categorized_rows)
qed

text \<open>
  A group whose name is an array index comes first among equals, wherever it was met: with
  \<^verbatim>\<open>Books\<close> met before \<^verbatim>\<open>7\<close> and equal amounts, \<^verbatim>\<open>7\<close> is listed first.
\<close>

lemma categoryArray_index_name_first:
  "map category (categoryArray
     [\<lparr>r_amount = 10, r_type = Expense,
       r_category = Some \<lparr>cat_name = ''Books'', cat_color = None\<rparr>\<rparr>,
      \<lparr>r_amount = 10, r_type = Expense,
       r_category = Some \<lparr>cat_name = ''7'', cat_color = None\<rparr>\<rparr>])
   = [''7'', ''Books'']"
  by (simp add: totalExpense_def categoryArray_def categoryMap_def addToCategoryMap_def
      Object_entries_def isArrayIndex_def isDigit_def digitsValue_def catName_def catColor_def)

text \<open>
  Every group's amount is the sum of the expenses that carry a category and fall under the
  group's name.
\<close>

theorem categoryArray_group_amount:
  assumes "c \<in> set (categoryArray ts)"
  shows "cs_amount c =
     sum_list (map r_amount
       (filter (\<lambda>t. r_type t = Expense \<and> r_category t \<noteq> None \<and> catName t = category c) ts))"
proof -
  from assms obtain k e where "(k, e) \<in> set (categoryMap ts)" and "category c = k"
      and "cs_amount c = e_amount e"
    by (auto simp add: categoryArray_def set_Object_entries)
  then show ?thesis
    using entry_categoryMap by simp
qed


theorem categoryArray_group_amount_witness:
  "\<lparr>category = ''Food & Dining'', cs_amount = 50, cs_color = ''#EF4444'', percentage = 50\<rparr>
     \<in> set (categoryArray categorized_rows)
   \<and> sum_list (map r_amount
        (filter (\<lambda>t. r_type t = Expense \<and> r_category t \<noteq> None \<and> catName t = ''Food & Dining'')
           categorized_rows)) = 50"
  using categoryArray_group_amount[of
      "\<lparr>category = ''Food & Dining'', cs_amount = 50, cs_color = ''#EF4444'', percentage = 50\<rparr>"
      categorized_rows]
  by (simp add: categoryArray_categorized_rows)

text \<open>
  When every expense carries a category and the expense total is positive, the percentages
  add up to 100; without any expense the breakdown is empty.
\<close>

theorem categoryArray_percentages_sum:
  assumes "0 < totalExpense ts" and "\<forall>t\<in>set ts. r_type t = Expense \<longrightarrow> r_category t \<noteq> None"
  shows "sum_list (map percentage (categoryArray ts)) = 100"
proof -
  have "filter (\<lambda>t. r_type t = Expense \<and> r_category t \<noteq> None) ts = filter (\<lambda>t. r_type t = Expense) ts"
    using assms(2) by (intro filter_cong) auto
  then have "sum_list (map r_amount (filter (\<lambda>t. r_type t = Expense \<and> r_category t \<noteq> None) ts)) =
      totalExpense ts"
    by (simp add: totalExpense_def foldl_plus_sum_list)
  then show ?thesis
    using assms(1) by (simp add: percent_sum)
qed


theorem categoryArray_percentages_sum_witness:
  "0 < totalExpense categorized_rows
   \<and> sum_list (map percentage (categoryArray categorized_rows)) = 100"
  using categoryArray_percentages_sum[of categorized_rows]
  by (simp add: totalExpense_def categorized_rows_def)

lemma categoryArray_no_expense: "filter (\<lambda>t. r_type t = Expense) ts = [] \<Longrightarrow> categoryArray ts = []"
proof -
  assume a: "filter (\<lambda>t. r_type t = Expense) ts = []"
  have "filter (\<lambda>t. r_type t = Expense \<and> r_category t \<noteq> None) ts =
        filter (\<lambda>t. r_category t \<noteq> None) (filter (\<lambda>t. r_type t = Expense) ts)"
    by simp
  then show ?thesis
    using a by (simp add: categoryArray_def categoryMap_def Object_entries_def del: filter_filter)
qed


subsection \<open>The monthly overview\<close>

lemma income_addToMonthlyMap:
  "(case map_of (addToMonthlyMap tz m t) k of None \<Rightarrow> 0 | Some e \<Rightarrow> m_income e) =
     (case map_of m k of None \<Rightarrow> 0 | Some e \<Rightarrow> m_income e)
       + (if y_type t = Income \<and> monthShort tz (y_date t) = k then y_amount t else 0)"
  by (auto simp add: addToMonthlyMap_def map_of_map_bump split: option.splits)

lemma expense_addToMonthlyMap:
  "(case map_of (addToMonthlyMap tz m t) k of None \<Rightarrow> 0 | Some e \<Rightarrow> m_expense e) =
     (case map_of m k of None \<Rightarrow> 0 | Some e \<Rightarrow> m_expense e)
       + (if y_type t \<noteq> Income \<and> monthShort tz (y_date t) = k then y_amount t else 0)"
  by (auto simp add: addToMonthlyMap_def map_of_map_bump split: option.splits)

lemma income_foldl:
  "(case map_of (foldl (addToMonthlyMap tz) m ts) k of None \<Rightarrow> 0 | Some e \<Rightarrow> m_income e) =
     (case map_of m k of None \<Rightarrow> 0 | Some e \<Rightarrow> m_income e)
       + sum_list (map y_amount
           (filter (\<lambda>t. y_type t = Income \<and> monthShort tz (y_date t) = k) ts))"
  by (induction ts arbitrary: m) (simp_all add: income_addToMonthlyMap)

lemma expense_foldl:
  "(case map_of (foldl (addToMonthlyMap tz) m ts) k of None \<Rightarrow> 0 | Some e \<Rightarrow> m_expense e) =
     (case map_of m k of None \<Rightarrow> 0 | Some e \<Rightarrow> m_expense e)
       + sum_list (map y_amount
           (filter (\<lambda>t. y_type t \<noteq> Income \<and> monthShort tz (y_date t) = k) ts))"
  by (induction ts arbitrary: m) (simp_all add: expense_addToMonthlyMap)

lemma distinct_months: "distinct months"
  by (simp add: months_def)

lemma length_months: "length months = 12"
  by (simp add: months_def)

lemma localMonth_less: "localMonth tz dt < 12"
  by (simp add: localMonth_def)

lemma monthShort_eq_iff:
  "i < 12 \<Longrightarrow> monthShort tz dt = months ! i \<longleftrightarrow> localMonth tz dt = i"
  unfolding monthShort_def
  using distinct_months length_months localMonth_less[of tz dt]
  by (simp add: nth_eq_iff_index_eq)

lemma monthlyArray_nth:
  assumes "i < 12"
  shows "monthlyArray tz (Some ts) ! i =
     \<lparr>month = months ! i,
      income = sum_list (map y_amount
                 (filter (\<lambda>t. y_type t = Income \<and> localMonth tz (y_date t) = i) ts)),
      expense = sum_list (map y_amount
                 (filter (\<lambda>t. y_type t \<noteq> Income \<and> localMonth tz (y_date t) = i) ts))\<rparr>"
proof -
  have n: "monthlyArray tz (Some ts) ! i =
     \<lparr>month = months ! i,
      income = (case map_of (monthlyMap tz (Some ts)) (months ! i) of
                  None \<Rightarrow> 0 | Some e \<Rightarrow> m_income e),
      expense = (case map_of (monthlyMap tz (Some ts)) (months ! i) of
                   None \<Rightarrow> 0 | Some e \<Rightarrow> m_expense e)\<rparr>"
    using assms by (simp add: monthlyArray_def length_months)
  have f1: "filter (\<lambda>t. y_type t = Income \<and> monthShort tz (y_date t) = months ! i) ts =
        filter (\<lambda>t. y_type t = Income \<and> localMonth tz (y_date t) = i) ts"
    using monthShort_eq_iff[OF assms] by simp
  have f2: "filter (\<lambda>t. y_type t \<noteq> Income \<and> monthShort tz (y_date t) = months ! i) ts =
        filter (\<lambda>t. y_type t \<noteq> Income \<and> localMonth tz (y_date t) = i) ts"
    using monthShort_eq_iff[OF assms] by simp
  show ?thesis
    unfolding n monthlyMap_def option.case
    by (simp only: income_foldl expense_foldl f1 f2) simp
qed

lemma localMonth_own:
  assumes "0 \<le> tz \<or> d_day dt \<noteq> 1" and "1 \<le> d_month dt" and "d_month dt \<le> 12"
  shows "localMonth tz dt = d_month dt - 1"
  using assms by (auto simp add: localMonth_def mod_if)


text \<open>
  C6. On a device west of Greenwich (here UTC-5) an income dated 1 March 2024 lands in the
  February entry; the March entry stays empty.
\<close>

theorem monthlyArray_first_of_month_west:
  "monthlyArray (- 300) (Some [first_of_march]) ! 1 = \<lparr>month = ''Feb'', income = 500, expense = 0\<rparr>
   \<and> monthlyArray (- 300) (Some [first_of_march]) ! 2 = \<lparr>month = ''Mar'', income = 0, expense = 0\<rparr>"
  by (simp add: monthlyArray_def monthlyMap_def addToMonthlyMap_def monthShort_def localMonth_def
      months_def first_of_march_def)

text \<open>
  The array always has the twelve entries Jan to Dec in this order, rows or no rows.
\<close>

theorem monthlyArray_labels:
  "map month (monthlyArray tz yearTransactions) = months
   \<and> length (monthlyArray tz yearTransactions) = 12"
  by (simp add: monthlyArray_def months_def)

text \<open>
  On a device at or east of Greenwich, or when no row is dated on the first of a month, the
  entry of month \<open>mo\<close> holds the summed incomes and the summed expenses of the rows dated
  in month \<open>mo\<close>.
\<close>

theorem monthlyArray_own_month:
  assumes "0 \<le> tz \<or> (\<forall>t\<in>set ts. d_day (y_date t) \<noteq> 1)"
    and "\<forall>t\<in>set ts. 1 \<le> d_month (y_date t) \<and> d_month (y_date t) \<le> 12"
    and "1 \<le> mo" and "mo \<le> 12"
  shows "monthlyArray tz (Some ts) ! (mo - 1) =
     \<lparr>month = months ! (mo - 1),
      income = sum_list (map y_amount
                 (filter (\<lambda>t. y_type t = Income \<and> d_month (y_date t) = mo) ts)),
      expense = sum_list (map y_amount
                 (filter (\<lambda>t. y_type t = Expense \<and> d_month (y_date t) = mo) ts))\<rparr>"
proof -
  have own: "\<And>t. t \<in> set ts \<Longrightarrow> localMonth tz (y_date t) = mo - 1 \<longleftrightarrow> d_month (y_date t) = mo"
  proof -
    fix t assume t: "t \<in> set ts"
    then have "localMonth tz (y_date t) = d_month (y_date t) - 1"
      using assms(1,2) by (intro localMonth_own) auto
    then show "localMonth tz (y_date t) = mo - 1 \<longleftrightarrow> d_month (y_date t) = mo"
      using assms(2,3) t by auto
  qed
  have ne: "\<And>t. y_type t \<noteq> Income \<longleftrightarrow> y_type t = Expense"
    by (metis txn_type.exhaust txn_type.distinct(1))
  have f1: "filter (\<lambda>t. y_type t = Income \<and> localMonth tz (y_date t) = mo - 1) ts =
            filter (\<lambda>t. y_type t = Income \<and> d_month (y_date t) = mo) ts"
    using own by (intro filter_cong) auto
  have f2: "filter (\<lambda>t. y_type t \<noteq> Income \<and> localMonth tz (y_date t) = mo - 1) ts =
            filter (\<lambda>t. y_type t = Expense \<and> d_month (y_date t) = mo) ts"
    using own ne by (intro filter_cong) auto
  have "mo - 1 < 12" using assms(3,4) by simp
  from monthlyArray_nth[OF this, of tz ts] show ?thesis
    unfolding f1 f2 .
qed


theorem monthlyArray_own_month_witness:
  "monthlyArray (- 300) (Some scenario_year) ! 2 = \<lparr>month = ''Mar'', income = 500, expense = 0\<rparr>
   \<and> monthlyArray (- 300) (Some scenario_year) ! 6 = \<lparr>month = ''Jul'', income = 0, expense = 200\<rparr>"
  using monthlyArray_own_month[of "- 300" scenario_year 3]
    monthlyArray_own_month[of "- 300" scenario_year 7]
  by (simp add: scenario_year_def months_def)

subsection \<open>Net amount and savings rate\<close>






section \<open>Properties of the budget cards\<close>



section \<open>Properties of the provisioning\<close>

text \<open>
  C8. A sign-up that created the identity (no error, a user), with both inserts accepted:
  the profiles gain exactly one row, for that user, with currency USD, and the categories
  gain exactly the eight default rows in the order of the list, each owned by the user,
  flagged as a system category and carrying a color.
\<close>

theorem signUp_provisions:
  assumes "su_error resp = None" and "su_user resp = Some uid"
    and "profile_ok" and "categories_ok" and "uid \<notin> set (map p_id (profiles db))"
  shows "profiles (fst (signUp resp fullName profile_ok categories_ok db)) =
           profiles db @ [\<lparr>p_id = uid, full_name = fullName, currency = ''USD''\<rparr>]
     \<and> categories (fst (signUp resp fullName profile_ok categories_ok db)) =
           categories db @ map (withUser uid) defaultCategories
     \<and> map (\<lambda>c. (name c, ctype c, is_system c, user_id c)) (map (withUser uid) defaultCategories) =
           [(''Salary'', Income, True, uid), (''Freelance'', Income, True, uid),
            (''Food & Dining'', Expense, True, uid), (''Transportation'', Expense, True, uid),
            (''Shopping'', Expense, True, uid), (''Entertainment'', Expense, True, uid),
            (''Bills & Utilities'', Expense, True, uid), (''Healthcare'', Expense, True, uid)]
     \<and> [] \<notin> set (map color (map (withUser uid) defaultCategories))"
  using assms
  by (simp add: signUp_def insert_profile_def insert_categories_def defaultCategories_def
      withUser_def category_seed.defs)

theorem signUp_provisions_witness:
  "profiles (fst (signUp \<lparr>su_user = Some ''user-1'', su_error = None\<rparr> ''Ada'' True True
       \<lparr>profiles = [], categories = []\<rparr>)) =
     [\<lparr>p_id = ''user-1'', full_name = ''Ada'', currency = ''USD''\<rparr>]
   \<and> map name (categories (fst (signUp \<lparr>su_user = Some ''user-1'', su_error = None\<rparr> ''Ada''
       True True \<lparr>profiles = [], categories = []\<rparr>))) =
     [''Salary'', ''Freelance'', ''Food & Dining'', ''Transportation'', ''Shopping'',
      ''Entertainment'', ''Bills & Utilities'', ''Healthcare'']"
  using signUp_provisions[of "\<lparr>su_user = Some ''user-1'', su_error = None\<rparr>" "''user-1''" True True
      "\<lparr>profiles = [], categories = []\<rparr>" "''Ada''"]
  by (simp add: defaultCategories_def withUser_def category_seed.defs)

end
